theory Spec2Isabelle
  imports Main
begin

section \<open>Duplicate User Resolution (identify-auth0-users)\<close>

subsection \<open>Data model\<close>

text \<open>
  The interfaces \<^verbatim>\<open>DuplicateUser\<close>, \<^verbatim>\<open>Auth0User\<close> and \<^verbatim>\<open>ProcessingResult\<close>. An
  optional field \<^verbatim>\<open>f?: T\<close> is a \<open>T option\<close>. Field names shared by several
  interfaces carry a suffix (\<open>_dup\<close>, \<open>_a0\<close>, \<open>_pr\<close>).
\<close>

record DuplicateUser =
  username :: string
  email_dup :: string
  name_dup :: string
  createdAt :: string
  updatedAt :: string
  provider_dup :: "string option"
  providerId :: "string option"
  isDustSuperUser :: bool
  firstName_dup :: string
  lastName_dup :: "string option"
  imageUrl :: "string option"
  auth0Sub :: "string option"
  sId :: string
  id_dup :: string
  workOSUserId :: "string option"

record Auth0User =
  user_id_a0 :: string
  email_a0 :: string
  last_login :: "string option"
  last_ip :: "string option"
  logins_count :: "int option"
  created_at_a0 :: string
  updated_at_a0 :: string

text \<open>The union type \<^verbatim>\<open>'keep' | 'skip' | 'manual_review'\<close>.\<close>

datatype action = Keep | Skip | ManualReview

text \<open>
  The object returned by \<^verbatim>\<open>processDuplicateUsers\<close>; \<^verbatim>\<open>ProcessingResult\<close> has the same
  fields and three more.
\<close>

record Decision =
  userToKeep :: "DuplicateUser option"
  auth0User :: "Auth0User option"
  action :: action
  reason :: string
  requiresManualReview :: "bool option"

record ProcessingResult = Decision +
  email_pr :: string
  duplicates_pr :: "DuplicateUser list"
  auth0Users_pr :: "Auth0User list"

subsection \<open>JavaScript built-ins used by the resolver\<close>

text \<open>A string-valued optional field is truthy when it is present and not empty.\<close>

definition truthy :: "string option \<Rightarrow> bool" where
  "truthy s = (case s of None \<Rightarrow> False | Some v \<Rightarrow> v \<noteq> [])"

text \<open>Decimal rendering of an array length inside a template literal.\<close>

fun string_of_nat :: "nat \<Rightarrow> string" where
  "string_of_nat n =
     (if n < 10 then [char_of (48 + n)]
      else string_of_nat (n div 10) @ [char_of (48 + n mod 10)])"

declare string_of_nat.simps [simp del]

text \<open>
  \<^verbatim>\<open>Array.prototype.sort(compareFn)\<close> is a stable sort. The comparator returns a number;
  \<open>None\<close> stands for \<^verbatim>\<open>NaN\<close>, which the sort reads as \<open>0\<close>. The sort is modelled as
  stable insertion: an element goes in front of the first later element that it does not
  have to follow, so that elements comparing equal keep their input order.
\<close>

definition sortOrder :: "int option \<Rightarrow> int" where
  "sortOrder v = (case v of None \<Rightarrow> 0 | Some n \<Rightarrow> n)"

fun insert_by :: "('a \<Rightarrow> 'a \<Rightarrow> int option) \<Rightarrow> 'a \<Rightarrow> 'a list \<Rightarrow> 'a list" where
  "insert_by cmp x [] = [x]"
| "insert_by cmp x (y # ys) =
     (if sortOrder (cmp x y) \<le> 0 then x # y # ys else y # insert_by cmp x ys)"

fun sort_by :: "('a \<Rightarrow> 'a \<Rightarrow> int option) \<Rightarrow> 'a list \<Rightarrow> 'a list" where
  "sort_by cmp [] = []"
| "sort_by cmp (x # xs) = insert_by cmp x (sort_by cmp xs)"

subsection \<open>processDuplicateUsers\<close>

text \<open>
  \<^verbatim>\<open>auth0UserMap\<close>: a \<^verbatim>\<open>Map\<close> filled by \<^verbatim>\<open>forEach\<close>, so a later account with the same
  \<^verbatim>\<open>user_id\<close> replaces an earlier one.
\<close>

definition auth0UserMap :: "Auth0User list \<Rightarrow> (string \<rightharpoonup> Auth0User)" where
  "auth0UserMap auth0Users = foldl (\<lambda>m user. m(user_id_a0 user \<mapsto> user)) Map.empty auth0Users"

text \<open>\<^verbatim>\<open>user.auth0Sub && auth0UserMap.has(user.auth0Sub)\<close>\<close>

definition existsInAuth0 :: "(string \<rightharpoonup> Auth0User) \<Rightarrow> DuplicateUser \<Rightarrow> bool" where
  "existsInAuth0 m user =
     (case auth0Sub user of
        None \<Rightarrow> False
      | Some sub \<Rightarrow> sub \<noteq> [] \<and> m sub \<noteq> None)"

definition existingUsers :: "DuplicateUser list \<Rightarrow> Auth0User list \<Rightarrow> DuplicateUser list" where
  "existingUsers dups auth0Users = filter (existsInAuth0 (auth0UserMap auth0Users)) dups"

text \<open>\<^verbatim>\<open>auth0UserMap.get(user.auth0Sub!)\<close>: \<^verbatim>\<open>undefined\<close> when the key is absent.\<close>

definition getAuth0Data :: "(string \<rightharpoonup> Auth0User) \<Rightarrow> DuplicateUser \<Rightarrow> Auth0User option" where
  "getAuth0Data m user = (case auth0Sub user of None \<Rightarrow> None | Some sub \<Rightarrow> m sub)"

text \<open>
  The \<^verbatim>\<open>.map(user => ({ user, auth0Data }))\<close> step. It runs on \<^verbatim>\<open>existingUsers\<close> only,
  where the lookup always succeeds (lemma \<open>withAuth0Data_existing\<close> below), so no pair is
  ever dropped.
\<close>

definition withAuth0Data ::
  "(string \<rightharpoonup> Auth0User) \<Rightarrow> DuplicateUser list \<Rightarrow> (DuplicateUser \<times> Auth0User) list" where
  "withAuth0Data m users =
     concat (map (\<lambda>user. case getAuth0Data m user of
                           None \<Rightarrow> []
                         | Some auth0Data \<Rightarrow> [(user, auth0Data)]) users)"

text \<open>\<^verbatim>\<open>auth0Data.logins_count || 0\<close>\<close>

definition loginsOrZero :: "Auth0User \<Rightarrow> int" where
  "loginsOrZero a = (case logins_count a of None \<Rightarrow> 0 | Some n \<Rightarrow> n)"

text \<open>
  The comparator of the sort. \<open>getTime s\<close> stands for \<^verbatim>\<open>new Date(s).getTime()\<close>, with
  \<open>None\<close> for the \<^verbatim>\<open>NaN\<close> of an invalid date; it is a parameter of the model.
\<close>

definition compareFn ::
  "(string \<Rightarrow> int option) \<Rightarrow> DuplicateUser \<times> Auth0User \<Rightarrow> DuplicateUser \<times> Auth0User
     \<Rightarrow> int option" where
  "compareFn getTime a b =
     (let loginDiff = loginsOrZero (snd b) - loginsOrZero (snd a) in
      if loginDiff \<noteq> 0 then Some loginDiff
      else if truthy (last_login (snd a)) \<and> truthy (last_login (snd b)) then
        (case (last_login (snd b), last_login (snd a)) of
           (Some lb, Some la) \<Rightarrow>
             (case (getTime lb, getTime la) of
                (Some tb, Some ta) \<Rightarrow> Some (tb - ta)
              | _ \<Rightarrow> None)
         | _ \<Rightarrow> Some 0)
      else Some 0)"

definition sortedUsers ::
  "(string \<Rightarrow> int option) \<Rightarrow> DuplicateUser list \<Rightarrow> Auth0User list
     \<Rightarrow> (DuplicateUser \<times> Auth0User) list" where
  "sortedUsers getTime dups auth0Users =
     sort_by (compareFn getTime)
       (withAuth0Data (auth0UserMap auth0Users) (existingUsers dups auth0Users))"

text \<open>
  In the third case \<^verbatim>\<open>sortedUsers[0]\<close> is read. The sorted array has one entry for each
  of the two or more existing users (lemma \<open>length_sortedUsers\<close>), so the branch for an
  empty \<open>sortedUsers\<close> below is never taken; it is there because \<open>case\<close> is total.
\<close>

definition processDuplicateUsers ::
  "(string \<Rightarrow> int option) \<Rightarrow> DuplicateUser list \<Rightarrow> Auth0User list \<Rightarrow> Decision" where
  "processDuplicateUsers getTime dups auth0Users =
     (case existingUsers dups auth0Users of
        [] \<Rightarrow>
          \<lparr>userToKeep = None, auth0User = None, action = Skip,
           reason = ''All users deleted from Auth0'', requiresManualReview = None\<rparr>
      | [user] \<Rightarrow>
          \<lparr>userToKeep = Some user,
           auth0User = getAuth0Data (auth0UserMap auth0Users) user,
           action = Keep, reason = ''Single user exists in Auth0'',
           requiresManualReview = None\<rparr>
      | _ \<Rightarrow>
          (case sortedUsers getTime dups auth0Users of
             [] \<Rightarrow>
               \<lparr>userToKeep = None, auth0User = None, action = ManualReview,
                reason = string_of_nat (length (existingUsers dups auth0Users))
                           @ '' users exist in Auth0 - manual review required'',
                requiresManualReview = Some True\<rparr>
           | best # _ \<Rightarrow>
               \<lparr>userToKeep = Some (fst best), auth0User = Some (snd best),
                action = ManualReview,
                reason = string_of_nat (length (existingUsers dups auth0Users))
                           @ '' users exist in Auth0 - manual review required'',
                requiresManualReview = Some True\<rparr>))"

subsection \<open>getAuth0UsersByEmail and processEmailGroup\<close>

text \<open>
  What a call of a remote service or of the file system can throw. The WorkOS exception
  carries \<^verbatim>\<open>retryAfter: number | null\<close>; the Auth0 error carries its HTTP status and the
  value of \<^verbatim>\<open>headers.get("retry-after")\<close>.
\<close>

datatype failure =
    RateLimitExceededException "int option"
  | ManagementApiError int "string option"
  | ZodError
  | OtherError string

text \<open>
  \<^verbatim>\<open>email.replace(/([+\-&|!(){}[\]^"~*?:\\\/])/g, "\\$1")\<close>: every character of the class
  gets a backslash in front.
\<close>

definition luceneSpecial :: "char list" where
  "luceneSpecial = ''+-&|!(){}[]^~*?:/'' @ [CHR 0x22, CHR 0x5C]"

definition escapeLucene :: "string \<Rightarrow> string" where
  "escapeLucene s = concat (map (\<lambda>c. if c \<in> set luceneSpecial then [CHR 0x5C, c] else [c]) s)"

definition emailQuery :: "string \<Rightarrow> string" where
  "emailQuery email = ''email:'' @ [CHR 0x22] @ escapeLucene email @ [CHR 0x22]"

text \<open>
  \<open>getAll q\<close> stands for \<^verbatim>\<open>auth0.users.getAll({q, ...})\<close>: it throws, or it answers with
  \<^verbatim>\<open>response.data\<close>, which may be missing. The result of
  \<^verbatim>\<open>getAuth0UsersByEmail\<close> is \<^verbatim>\<open>response.data || []\<close>, and \<^verbatim>\<open>[]\<close> when the call threw.
\<close>

definition getAuth0UsersByEmail ::
  "(string \<Rightarrow> failure + Auth0User list option) \<Rightarrow> string \<Rightarrow> Auth0User list" where
  "getAuth0UsersByEmail getAll email =
     (case getAll (emailQuery email) of
        Inl error \<Rightarrow> []
      | Inr None \<Rightarrow> []
      | Inr (Some users) \<Rightarrow> users)"

definition processEmailGroup ::
  "(string \<Rightarrow> failure + Auth0User list option) \<Rightarrow> (string \<Rightarrow> int option)
     \<Rightarrow> string \<Rightarrow> DuplicateUser list \<Rightarrow> nat \<Rightarrow> ProcessingResult" where
  "processEmailGroup getAll getTime email dups recordNumber =
     (let users = getAuth0UsersByEmail getAll email;
          d = processDuplicateUsers getTime dups users
      in \<lparr>userToKeep = userToKeep d, auth0User = auth0User d, action = action d,
          reason = reason d, requiresManualReview = requiresManualReview d,
          email_pr = email, duplicates_pr = dups, auth0Users_pr = users\<rparr>)"

subsection \<open>The main loop of the resolver\<close>



text \<open>
  The command-line options the loop reads, and what the loop reads from its environment:
  the directory query, the date parser, and whether the append of record \<open>n\<close> throws.
\<close>

record Options =
  outputFile :: string
  manualReviewFile :: string
  skippedFile :: string
  dryRun :: bool



definition targetFile :: "Options \<Rightarrow> ProcessingResult \<Rightarrow> string" where
  "targetFile opts result =
     (if action result = Keep then outputFile opts
      else if action result = ManualReview then manualReviewFile opts
      else skippedFile opts)"





section \<open>The migration worker (migrate-auth0-users)\<close>

subsection \<open>Data model\<close>

text \<open>A value of \<^verbatim>\<open>z.any()\<close>, as far as the worker tells values apart.\<close>

datatype any_value = AnyBool bool | AnyString string | AnyOther

record Auth0ExportedUser =
  user_id :: string
  email :: string
  email_verified :: "any_value option"
  name :: string
  family_name :: "string option"
  given_name :: "string option"
  nickname :: string
  picture :: string
  provider :: string
  created_at :: string
  updated_at :: string
  region :: "string option"
  workos_user_id :: "string option"

text \<open>The fields of the WorkOS \<^verbatim>\<open>User\<close> that the scripts read.\<close>

record User =
  id_User :: string
  email_User :: string
  emailVerified_User :: bool

record Metadata =
  auth0Sub_md :: string
  region_md :: "string option"

record CreateUserOptions =
  email_c :: string
  emailVerified_c :: bool
  firstName_c :: "string option"
  lastName_c :: "string option"
  metadata_c :: Metadata

record UpdateUserOptions =
  userId :: string
  emailVerified_u :: bool
  firstName_u :: "string option"
  lastName_u :: "string option"
  metadata_u :: Metadata

text \<open>A line of \<^verbatim>\<open>out/migration-results.jsonl\<close> (the interface \<^verbatim>\<open>MigrationResult\<close>).\<close>

record MigrationResult =
  workos_user_id_mr :: string
  auth0_user_id :: string
  created_mr :: bool

text \<open>The object that \<^verbatim>\<open>updateUser\<close> and \<^verbatim>\<open>findOrCreateUser\<close> return.\<close>

record FindResult =
  workOsUser :: "User option"
  created :: bool

subsection \<open>Effects\<close>

text \<open>
  Every call that leaves the process, and every console line, is recorded in a trace, in
  the order of the source. A call is recorded with the failure it threw, if it threw.
\<close>

datatype api_call =
    GetUser string
  | CreateUser CreateUserOptions
  | ListUsers string
  | UpdateUser UpdateUserOptions
  | UpdateUserPassword string string
  | Auth0SetWorkosUserId string string
  | Auth0SetPasswordImported string
  | AppendResult MigrationResult

text \<open>A JavaScript number, as far as a delay needs it: an integer or \<^verbatim>\<open>NaN\<close>.\<close>

datatype number = Num int | NaN

datatype console_msg =
    ErrorParsingUser nat
  | CantMigrateUser failure
  | CouldNotFindOrCreate nat string
  | ImportedUser nat string string
  | UpdatedUser nat string string
  | RateLimitPausing number
  | SuccessfullyUpdated nat string string
  | FailedToUpdate nat string failure
  | CantUpdateMetadata string string
  | CouldNotFindPasswordUser nat string string
  | ImportedPasswordUser nat string string

datatype event = Call api_call "failure option" | Console console_msg

text \<open>
  The services the scripts talk to. \<open>'w\<close> is the state of the world outside the process
  (the accounts of both identity services, the disk); a call reads it, may change it, and
  answers or throws. Nothing is assumed about it.
\<close>

record 'w services =
  workos_getUser :: "string \<Rightarrow> 'w \<Rightarrow> (failure + User) \<times> 'w"
  workos_createUser :: "CreateUserOptions \<Rightarrow> 'w \<Rightarrow> (failure + User) \<times> 'w"
  workos_listUsers :: "string \<Rightarrow> 'w \<Rightarrow> (failure + User list) \<times> 'w"
  workos_updateUser :: "UpdateUserOptions \<Rightarrow> 'w \<Rightarrow> (failure + User) \<times> 'w"
  workos_updateUserPassword :: "string \<Rightarrow> string \<Rightarrow> 'w \<Rightarrow> (failure + User) \<times> 'w"
  auth0_setWorkosUserId :: "string \<Rightarrow> string \<Rightarrow> 'w \<Rightarrow> (failure + unit) \<times> 'w"
  auth0_setPasswordImported :: "string \<Rightarrow> 'w \<Rightarrow> (failure + unit) \<times> 'w"
  fs_appendResult :: "MigrationResult \<Rightarrow> 'w \<Rightarrow> (failure + unit) \<times> 'w"

definition thrown :: "failure + 'a \<Rightarrow> failure option" where
  "thrown r = (case r of Inl e \<Rightarrow> Some e | Inr _ \<Rightarrow> None)"

definition call ::
  "api_call \<Rightarrow> ('w \<Rightarrow> (failure + 'a) \<times> 'w) \<Rightarrow> 'w \<times> event list
     \<Rightarrow> (failure + 'a) \<times> ('w \<times> event list)" where
  "call c f s =
     (case f (fst s) of (r, w') \<Rightarrow> (r, (w', snd s @ [Call c (thrown r)])))"

definition console :: "console_msg \<Rightarrow> 'w \<times> event list \<Rightarrow> 'w \<times> event list" where
  "console m s = (fst s, snd s @ [Console m])"

subsection \<open>updateUser and findOrCreateUser\<close>

text \<open>\<^verbatim>\<open>exportedUser.email_verified === true || exportedUser.email_verified === "true"\<close>\<close>

definition exportedVerified :: "Auth0ExportedUser \<Rightarrow> bool" where
  "exportedVerified exportedUser =
     (email_verified exportedUser = Some (AnyBool True)
      \<or> email_verified exportedUser = Some (AnyString ''true''))"

text \<open>\<^verbatim>\<open>{ auth0Sub: user_id, ...(region ? { region } : {}) }\<close>\<close>

definition metadataOf :: "Auth0ExportedUser \<Rightarrow> Metadata" where
  "metadataOf exportedUser =
     \<lparr>auth0Sub_md = user_id exportedUser,
      region_md = (if truthy (region exportedUser) then region exportedUser else None)\<rparr>"

definition updateOptions :: "Auth0ExportedUser \<Rightarrow> User \<Rightarrow> UpdateUserOptions" where
  "updateOptions exportedUser existingUser =
     \<lparr>userId = id_User existingUser,
      emailVerified_u = (emailVerified_User existingUser \<or> exportedVerified exportedUser),
      firstName_u = given_name exportedUser,
      lastName_u = family_name exportedUser,
      metadata_u = metadataOf exportedUser\<rparr>"

definition createOptions :: "Auth0ExportedUser \<Rightarrow> CreateUserOptions" where
  "createOptions exportedUser =
     \<lparr>email_c = email exportedUser,
      emailVerified_c = exportedVerified exportedUser,
      firstName_c = given_name exportedUser,
      lastName_c = family_name exportedUser,
      metadata_c = metadataOf exportedUser\<rparr>"

text \<open>
  \<^verbatim>\<open>String.prototype.toLowerCase\<close> on the ASCII letters; the model leaves every other
  character as it is.
\<close>

definition toLowerCase :: "string \<Rightarrow> string" where
  "toLowerCase s =
     map (\<lambda>c. if (65::nat) \<le> of_char c \<and> of_char c \<le> (90::nat)
               then char_of (of_char c + (32::nat)) else c) s"

definition updateUser ::
  "'w services \<Rightarrow> Auth0ExportedUser \<Rightarrow> User \<Rightarrow> 'w \<times> event list
     \<Rightarrow> (failure + FindResult) \<times> ('w \<times> event list)" where
  "updateUser env exportedUser existingUser s =
     (case call (UpdateUser (updateOptions exportedUser existingUser))
             (workos_updateUser env (updateOptions exportedUser existingUser)) s of
        (Inl error, s') \<Rightarrow> (Inl error, s')
      | (Inr _, s') \<Rightarrow> (Inr \<lparr>workOsUser = Some existingUser, created = False\<rparr>, s'))"

text \<open>
  How the \<^verbatim>\<open>try\<close> block of \<^verbatim>\<open>findOrCreateUser\<close> ends: it returns, or an awaited call
  threw and the \<^verbatim>\<open>catch\<close> block runs with that error. \<^verbatim>\<open>return updateUser(...)\<close>
  hands the promise of \<^verbatim>\<open>updateUser\<close> back without awaiting it, so the block has
  returned by the time that promise settles, and its rejection is the rejection of
  \<^verbatim>\<open>findOrCreateUser\<close>: it never reaches the \<^verbatim>\<open>catch\<close> block.
\<close>

datatype ('r, 's) try_block = Returned 'r | Caught failure 's

definition isRateLimitExceededException :: "failure \<Rightarrow> bool" where
  "isRateLimitExceededException error =
     (case error of RateLimitExceededException _ \<Rightarrow> True | _ \<Rightarrow> False)"

text \<open>
  The \<^verbatim>\<open>try\<close> block. The test \<^verbatim>\<open>if (exportedUser.workos_user_id)\<close> holds for a
  present, non-empty identifier.
\<close>

definition findOrCreateUser_try ::
  "'w services \<Rightarrow> Auth0ExportedUser \<Rightarrow> 'w \<times> event list
     \<Rightarrow> ((failure + FindResult) \<times> ('w \<times> event list), 'w \<times> event list) try_block" where
  "findOrCreateUser_try env exportedUser s =
     (case (if truthy (workos_user_id exportedUser) then workos_user_id exportedUser
            else None) of
        Some wid \<Rightarrow>
          (case call (GetUser wid) (workos_getUser env wid) s of
             (Inl error, s') \<Rightarrow> Caught error s'
           | (Inr user, s') \<Rightarrow> Returned (updateUser env exportedUser user s'))
      | None \<Rightarrow>
          (case call (CreateUser (createOptions exportedUser))
                  (workos_createUser env (createOptions exportedUser)) s of
             (Inl error, s') \<Rightarrow> Caught error s'
           | (Inr user, s') \<Rightarrow>
               Returned (Inr \<lparr>workOsUser = Some user, created = True\<rparr>, s')))"

text \<open>
  The \<^verbatim>\<open>catch\<close> block: a rate-limit exception is thrown again; any other error leads to
  the search by lowercased email. The calls in this block are outside the \<^verbatim>\<open>try\<close>, so
  what they throw leaves \<^verbatim>\<open>findOrCreateUser\<close>.
\<close>

definition findOrCreateUser_catch ::
  "'w services \<Rightarrow> Auth0ExportedUser \<Rightarrow> failure \<Rightarrow> 'w \<times> event list
     \<Rightarrow> (failure + FindResult) \<times> ('w \<times> event list)" where
  "findOrCreateUser_catch env exportedUser error s =
     (if isRateLimitExceededException error then (Inl error, s)
      else
        (case call (ListUsers (toLowerCase (email exportedUser)))
                (workos_listUsers env (toLowerCase (email exportedUser))) s of
           (Inl error', s') \<Rightarrow> (Inl error', s')
         | (Inr matchingUsers, s') \<Rightarrow>
             (case matchingUsers of
                [existingUser] \<Rightarrow> updateUser env exportedUser existingUser s'
              | _ \<Rightarrow>
                  (Inr \<lparr>workOsUser = None, created = False\<rparr>,
                   console (CantMigrateUser error) s'))))"

definition findOrCreateUser ::
  "'w services \<Rightarrow> Auth0ExportedUser \<Rightarrow> 'w \<times> event list
     \<Rightarrow> (failure + FindResult) \<times> ('w \<times> event list)" where
  "findOrCreateUser env exportedUser s =
     (case findOrCreateUser_try env exportedUser s of
        Returned r \<Rightarrow> r
      | Caught error s' \<Rightarrow> findOrCreateUser_catch env exportedUser error s')"

subsection \<open>processLine and the queued task\<close>

text \<open>
  \<open>parse\<close> stands for \<^verbatim>\<open>Auth0ExportedUser.parse\<close> of the schema library: \<open>None\<close> when it
  throws. The worker catches that exception, logs it and returns \<^verbatim>\<open>false\<close>.
\<close>

definition processLine ::
  "'w services \<Rightarrow> ('l \<Rightarrow> Auth0ExportedUser option) \<Rightarrow> 'l \<Rightarrow> nat \<Rightarrow> 'w \<times> event list
     \<Rightarrow> (failure + bool) \<times> ('w \<times> event list)" where
  "processLine env parse line recordNumber s =
     (case parse line of
        None \<Rightarrow> (Inr False, console (ErrorParsingUser recordNumber) s)
      | Some exportedUser \<Rightarrow>
          (case findOrCreateUser env exportedUser s of
             (Inl error, s') \<Rightarrow> (Inl error, s')
           | (Inr r, s') \<Rightarrow>
               (case workOsUser r of
                  None \<Rightarrow>
                    (Inr False,
                     console (CouldNotFindOrCreate recordNumber (user_id exportedUser)) s')
                | Some user \<Rightarrow>
                    (case call (AppendResult
                                 \<lparr>workos_user_id_mr = id_User user,
                                  auth0_user_id = user_id exportedUser,
                                  created_mr = created r\<rparr>)
                            (fs_appendResult env
                                 \<lparr>workos_user_id_mr = id_User user,
                                  auth0_user_id = user_id exportedUser,
                                  created_mr = created r\<rparr>) s' of
                       (Inl error, s'') \<Rightarrow> (Inl error, s'')
                     | (Inr _, s'') \<Rightarrow>
                         (Inr True,
                          console
                            (if created r
                             then ImportedUser recordNumber (user_id exportedUser) (id_User user)
                             else UpdatedUser recordNumber (user_id exportedUser) (id_User user))
                            s'')))))"

text \<open>
  The pause of the queue after a rate-limit failure, in seconds:
  \<^verbatim>\<open>(error.retryAfter ?? DEFAULT_RETRY_AFTER) + 1\<close>.
\<close>

definition DEFAULT_RETRY_AFTER :: int where
  "DEFAULT_RETRY_AFTER = 60"

definition nullish :: "'a option \<Rightarrow> 'a \<Rightarrow> 'a" where
  "nullish v d = (case v of None \<Rightarrow> d | Some x \<Rightarrow> x)"

definition retryAfter :: "int option \<Rightarrow> int" where
  "retryAfter errorRetryAfter = nullish errorRetryAfter DEFAULT_RETRY_AFTER + 1"

text \<open>
  How one run of \<^verbatim>\<open>enqueueTask\<close> ends. The task resolves; or it was rejected with
  a rate-limit exception, and the handler pauses the queue, calls \<^verbatim>\<open>enqueueTask\<close> again,
  sleeps for the given number of seconds and starts the queue; or it was rejected with
  anything else, which the handler throws again.
\<close>

datatype 'd settled = Resolved | Backoff 'd | Rethrown failure

text \<open>
  The task given to \<^verbatim>\<open>queue.add\<close> with its \<^verbatim>\<open>.catch\<close> handler. The number beside the
  state is \<^verbatim>\<open>completedCount\<close>.
\<close>

definition enqueueTask ::
  "'w services \<Rightarrow> ('l \<Rightarrow> Auth0ExportedUser option) \<Rightarrow> 'l \<Rightarrow> nat
     \<Rightarrow> ('w \<times> event list) \<times> nat \<Rightarrow> int settled \<times> (('w \<times> event list) \<times> nat)" where
  "enqueueTask env parse line recordNumber sn =
     (case processLine env parse line recordNumber (fst sn) of
        (Inr successful, s') \<Rightarrow> (Resolved, (s', if successful then snd sn + 1 else snd sn))
      | (Inl error, s') \<Rightarrow>
          (case error of
             RateLimitExceededException errorRetryAfter \<Rightarrow>
               (Backoff (retryAfter errorRetryAfter),
                (console (RateLimitPausing (Num (retryAfter errorRetryAfter))) s', snd sn))
           | _ \<Rightarrow> (Rethrown error, (s', snd sn))))"

section \<open>The Auth0 updater (update-auth0-users)\<close>

text \<open>
  The script replays the lines of \<^verbatim>\<open>out/migration-results.jsonl\<close>. Its \<^verbatim>\<open>processLine\<close>,
  \<^verbatim>\<open>DEFAULT_RETRY_AFTER\<close> and \<^verbatim>\<open>enqueueTask\<close> carry the suffix \<open>_auth0\<close> here.
\<close>

definition processLine_auth0 ::
  "'w services \<Rightarrow> MigrationResult \<Rightarrow> nat \<Rightarrow> 'w \<times> event list
     \<Rightarrow> (failure + bool) \<times> ('w \<times> event list)" where
  "processLine_auth0 env line recordNumber s =
     (case call (Auth0SetWorkosUserId (auth0_user_id line) (workos_user_id_mr line))
             (auth0_setWorkosUserId env (auth0_user_id line) (workos_user_id_mr line)) s of
        (Inr _, s') \<Rightarrow>
          (Inr True,
           console (SuccessfullyUpdated recordNumber (auth0_user_id line)
                      (workos_user_id_mr line)) s')
      | (Inl error, s') \<Rightarrow>
          (case error of
             ManagementApiError statusCode header \<Rightarrow>
               (if statusCode = 429 then (Inl error, s')
                else (Inr False,
                      console (FailedToUpdate recordNumber (auth0_user_id line) error) s'))
           | _ \<Rightarrow>
               (Inr False,
                console (FailedToUpdate recordNumber (auth0_user_id line) error) s')))"

definition DEFAULT_RETRY_AFTER_auth0 :: int where
  "DEFAULT_RETRY_AFTER_auth0 = 10"

text \<open>
  \<^verbatim>\<open>Number(v)\<close> is \<open>0\<close> for \<^verbatim>\<open>null\<close>; what it makes of a string is the parameter
  \<open>numberOfString\<close>. It never gives \<^verbatim>\<open>null\<close> or \<^verbatim>\<open>undefined\<close>.
\<close>

definition Number :: "(string \<Rightarrow> number) \<Rightarrow> string option \<Rightarrow> number" where
  "Number numberOfString v = (case v of None \<Rightarrow> Num 0 | Some str \<Rightarrow> numberOfString str)"

definition plus_number :: "number \<Rightarrow> int \<Rightarrow> number" where
  "plus_number x k = (case x of Num n \<Rightarrow> Num (n + k) | NaN \<Rightarrow> NaN)"

text \<open>
  \<^verbatim>\<open>(Number(error.headers.get("retry-after")) ?? DEFAULT_RETRY_AFTER) + 1\<close>; the argument
  is the value of \<^verbatim>\<open>headers.get("retry-after")\<close>, \<open>None\<close> for \<^verbatim>\<open>null\<close> (no such header).
\<close>

definition retryAfter_auth0 :: "(string \<Rightarrow> number) \<Rightarrow> string option \<Rightarrow> number" where
  "retryAfter_auth0 numberOfString header =
     plus_number
       (nullish (Some (Number numberOfString header)) (Num DEFAULT_RETRY_AFTER_auth0)) 1"

definition enqueueTask_auth0 ::
  "'w services \<Rightarrow> (string \<Rightarrow> number) \<Rightarrow> MigrationResult \<Rightarrow> nat
     \<Rightarrow> ('w \<times> event list) \<times> nat \<Rightarrow> number settled \<times> (('w \<times> event list) \<times> nat)" where
  "enqueueTask_auth0 env numberOfString line recordNumber sn =
     (case processLine_auth0 env line recordNumber (fst sn) of
        (Inr successful, s') \<Rightarrow> (Resolved, (s', if successful then snd sn + 1 else snd sn))
      | (Inl error, s') \<Rightarrow>
          (case error of
             ManagementApiError statusCode header \<Rightarrow>
               (if statusCode \<noteq> 429 then (Rethrown error, (s', snd sn))
                else (Backoff (retryAfter_auth0 numberOfString header),
                      (console (RateLimitPausing (retryAfter_auth0 numberOfString header)) s',
                       snd sn)))
           | _ \<Rightarrow> (Rethrown error, (s', snd sn))))"

section \<open>The password importer\<close>

text \<open>
  The third script of \<^verbatim>\<open>udpate_auth0_users.ts\<close>. Its \<^verbatim>\<open>Auth0ExportedUser\<close> is the record
  \<open>Auth0PasswordUser\<close> here, and its \<^verbatim>\<open>processLine\<close> carries the suffix \<open>_pw\<close>.
\<close>

record Identifier =
  type_id :: string
  value_id :: string
  verified_id :: bool

record Auth0PasswordUser =
  id_pw :: string
  email_pw :: string
  email_verified_pw :: "any_value option"
  tenant :: string
  connection :: string
  passwordHash :: string
  tmp_is_unique :: "any_value option"
  version :: string
  identifiers :: "Identifier list"

text \<open>
  The outer \<^verbatim>\<open>catch\<close> of \<^verbatim>\<open>updateUserPassword\<close>: a WorkOS rate-limit exception is thrown
  again, every other error ends the function with \<^verbatim>\<open>undefined\<close>.
\<close>

definition updateUserPassword_catch ::
  "failure \<Rightarrow> 's \<Rightarrow> (failure + User option) \<times> 's" where
  "updateUserPassword_catch error s =
     (if isRateLimitExceededException error then (Inl error, s) else (Inr None, s))"

definition updateUserPassword ::
  "'w services \<Rightarrow> Auth0PasswordUser \<Rightarrow> 'w \<times> event list
     \<Rightarrow> (failure + User option) \<times> ('w \<times> event list)" where
  "updateUserPassword env exportedUser s =
     (case call (ListUsers (toLowerCase (email_pw exportedUser)))
             (workos_listUsers env (toLowerCase (email_pw exportedUser))) s of
        (Inl error, s1) \<Rightarrow> updateUserPassword_catch error s1
      | (Inr matchingUsers, s1) \<Rightarrow>
          (case matchingUsers of
             [matching] \<Rightarrow>
               (case call (UpdateUserPassword (id_User matching) (passwordHash exportedUser))
                       (workos_updateUserPassword env (id_User matching)
                          (passwordHash exportedUser)) s1 of
                  (Inl error, s2) \<Rightarrow> updateUserPassword_catch error s2
                | (Inr user, s2) \<Rightarrow>
                    (case call (Auth0SetPasswordImported (''auth0|'' @ id_pw exportedUser))
                            (auth0_setPasswordImported env (''auth0|'' @ id_pw exportedUser))
                            s2 of
                       (Inl error, s3) \<Rightarrow>
                         (Inr (Some user),
                          console (CantUpdateMetadata (''auth0|'' @ id_pw exportedUser)
                                     (email_pw exportedUser)) s3)
                     | (Inr _, s3) \<Rightarrow> (Inr (Some user), s3)))
           | _ \<Rightarrow> (Inr None, s1)))"

text \<open>Here \<^verbatim>\<open>Auth0ExportedUser.parse(line)\<close> is outside any \<^verbatim>\<open>try\<close>: its exception leaves the worker.\<close>

definition processLine_pw ::
  "'w services \<Rightarrow> ('l \<Rightarrow> Auth0PasswordUser option) \<Rightarrow> 'l \<Rightarrow> nat \<Rightarrow> 'w \<times> event list
     \<Rightarrow> (failure + bool) \<times> ('w \<times> event list)" where
  "processLine_pw env parse line recordNumber s =
     (case parse line of
        None \<Rightarrow> (Inl ZodError, s)
      | Some exportedUser \<Rightarrow>
          (case updateUserPassword env exportedUser s of
             (Inl error, s') \<Rightarrow> (Inl error, s')
           | (Inr None, s') \<Rightarrow>
               (Inr False,
                console (CouldNotFindPasswordUser recordNumber (id_pw exportedUser)
                           (email_pw exportedUser)) s')
           | (Inr (Some user), s') \<Rightarrow>
               (Inr True,
                console (ImportedPasswordUser recordNumber (id_pw exportedUser)
                           (id_User user)) s')))"

text \<open>
  The importer's pause after a rate-limit failure has the shape of the migration worker's,
  with its own default.
\<close>

definition DEFAULT_RETRY_AFTER_pw :: int where
  "DEFAULT_RETRY_AFTER_pw = 10"

definition retryAfter_pw :: "int option \<Rightarrow> int" where
  "retryAfter_pw errorRetryAfter = nullish errorRetryAfter DEFAULT_RETRY_AFTER_pw + 1"

section \<open>The Bounded Concurrency Dispatcher\<close>

text \<open>
  Modelled from the spec: the dispatcher is the \<^verbatim>\<open>Queue\<close> class of the package
  \<^verbatim>\<open>p-queue\<close>, which the scripts import and construct with
  \<^verbatim>\<open>new Queue({ concurrency: MAX_CONCURRENT_USER_IMPORTS })\<close>; its code is not among the
  sources. The model follows section 4.2 of the specification: the state is
  \<open>activeCount\<close>, the fixed \<open>capacity\<close> and \<open>paused\<close>, together with the tasks that are held
  back; a submitted task is dispatched as soon as the dispatcher is not paused and
  \<open>activeCount\<close> is below the capacity; \<open>activeCount\<close> goes up by one when a task starts and
  down by one when it completes; pausing and resuming only switch the dispatch of new
  tasks.
\<close>

record 't Dispatcher =
  activeCount :: nat
  capacity :: nat
  paused :: bool
  queued :: "'t list"

definition newDispatcher :: "nat \<Rightarrow> 't Dispatcher" where
  "newDispatcher N = \<lparr>activeCount = 0, capacity = N, paused = False, queued = []\<rparr>"

text \<open>Start held-back tasks, oldest first, while \<open>activeCount\<close> is below the capacity.\<close>

fun startQueued :: "nat \<Rightarrow> nat \<Rightarrow> 't list \<Rightarrow> nat \<times> 't list" where
  "startQueued N active [] = (active, [])"
| "startQueued N active (t # ts) =
     (if active < N then startQueued N (Suc active) ts else (active, t # ts))"

definition dispatch :: "'t Dispatcher \<Rightarrow> 't Dispatcher" where
  "dispatch d =
     (if paused d then d
      else (case startQueued (capacity d) (activeCount d) (queued d) of
              (active, waiting) \<Rightarrow> d\<lparr>activeCount := active, queued := waiting\<rparr>))"

text \<open>
  What happens to a dispatcher during a run: the ingestion loop or the backoff handler
  submits a task, a running task completes (with success or failure), the backoff handler
  pauses, and later resumes. A completion with no task running cannot happen and changes
  nothing.
\<close>

datatype 't dispatcher_op = Submit 't | Complete | Pause | Resume

fun step :: "'t Dispatcher \<Rightarrow> 't dispatcher_op \<Rightarrow> 't Dispatcher" where
  "step d (Submit t) = dispatch (d\<lparr>queued := queued d @ [t]\<rparr>)"
| "step d Complete =
     (if activeCount d = 0 then d else dispatch (d\<lparr>activeCount := activeCount d - 1\<rparr>))"
| "step d Pause = d\<lparr>paused := True\<rparr>"
| "step d Resume = dispatch (d\<lparr>paused := False\<rparr>)"

text \<open>Every state the dispatcher goes through, the first one included.\<close>

fun states :: "'t Dispatcher \<Rightarrow> 't dispatcher_op list \<Rightarrow> 't Dispatcher list" where
  "states d [] = [d]"
| "states d (e # es) = d # states (step d e) es"

section \<open>Example data\<close>

definition exDup :: "string \<Rightarrow> string \<Rightarrow> string option \<Rightarrow> DuplicateUser" where
  "exDup ident mail sub =
     \<lparr>username = ident, email_dup = mail, name_dup = ident,
      createdAt = ''2024-01-01'', updatedAt = ''2024-01-02'',
      provider_dup = None, providerId = None, isDustSuperUser = False,
      firstName_dup = ident, lastName_dup = None, imageUrl = None,
      auth0Sub = sub, sId = ident, id_dup = ident, workOSUserId = None\<rparr>"

definition exAuth0 :: "string \<Rightarrow> string \<Rightarrow> int option \<Rightarrow> string option \<Rightarrow> Auth0User" where
  "exAuth0 uid mail logins lastLogin =
     \<lparr>user_id_a0 = uid, email_a0 = mail, last_login = lastLogin, last_ip = None,
      logins_count = logins, created_at_a0 = ''2024-01-01'', updated_at_a0 = ''2024-01-02''\<rparr>"

text \<open>A date parser that knows two dates.\<close>

definition exGetTime :: "string \<Rightarrow> int option" where
  "exGetTime str =
     (if str = ''2024-05-01'' then Some 1714521600000
      else if str = ''2024-06-01'' then Some 1717200000000
      else None)"

definition exExported :: "string \<Rightarrow> string \<Rightarrow> string option \<Rightarrow> Auth0ExportedUser" where
  "exExported uid mail wid =
     \<lparr>user_id = uid, email = mail, email_verified = Some (AnyBool True), name = ''Ann'',
      family_name = None, given_name = Some ''Ann'', nickname = ''ann'', picture = ''p'',
      provider = ''auth0'', created_at = ''2024-01-01'', updated_at = ''2024-01-02'',
      region = None, workos_user_id = wid\<rparr>"

definition exUser :: "string \<Rightarrow> string \<Rightarrow> User" where
  "exUser uid mail = \<lparr>id_User = uid, email_User = mail, emailVerified_User = False\<rparr>"

definition exPasswordUser :: "string \<Rightarrow> string \<Rightarrow> Auth0PasswordUser" where
  "exPasswordUser ident mail =
     \<lparr>id_pw = ident, email_pw = mail, email_verified_pw = None, tenant = ''t'',
      connection = ''c'', passwordHash = ''$2b$10$hash'', tmp_is_unique = None,
      version = ''1'', identifiers = []\<rparr>"

text \<open>
  Services that give the same answers whatever the state of the world, which is trivial
  here: one answer each for fetching, creating, listing and updating WorkOS users, one for
  the Auth0 update; the append to the ledger succeeds.
\<close>

definition exServices ::
  "failure + User \<Rightarrow> failure + User \<Rightarrow> failure + User list \<Rightarrow> failure + User
     \<Rightarrow> failure + unit \<Rightarrow> unit services" where
  "exServices fetched made listed updated auth0Updated =
     \<lparr>workos_getUser = (\<lambda>_ w. (fetched, w)),
      workos_createUser = (\<lambda>_ w. (made, w)),
      workos_listUsers = (\<lambda>_ w. (listed, w)),
      workos_updateUser = (\<lambda>_ w. (updated, w)),
      workos_updateUserPassword = (\<lambda>_ _ w. (updated, w)),
      auth0_setWorkosUserId = (\<lambda>_ _ w. (auth0Updated, w)),
      auth0_setPasswordImported = (\<lambda>_ w. (auth0Updated, w)),
      fs_appendResult = (\<lambda>_ w. (Inr (), w))\<rparr>"

definition exOptions :: "bool \<Rightarrow> Options" where
  "exOptions dry =
     \<lparr>outputFile = ''out/users_to_keep.jsonl'',
      manualReviewFile = ''out/manual_review.jsonl'',
      skippedFile = ''out/skipped_users.jsonl'', dryRun = dry\<rparr>"


text \<open>
  A group of three candidates for one email, the third without a reference into the
  directory, and a directory answer with the accounts of the first two: five logins and
  no last login for the first, ten logins for the second.
\<close>

definition exGroup :: "DuplicateUser list" where
  "exGroup =
     [exDup ''u1'' ''a@x.com'' (Some ''auth0|1''),
      exDup ''u2'' ''a@x.com'' (Some ''auth0|2''),
      exDup ''u3'' ''a@x.com'' None]"

definition exDirectory :: "Auth0User list" where
  "exDirectory =
     [exAuth0 ''auth0|1'' ''a@x.com'' (Some 5) None,
      exAuth0 ''auth0|2'' ''a@x.com'' (Some 10) (Some ''2024-05-01'')]"


subsection \<open>Vocabulary for the ranking of survivors\<close>






subsection \<open>Vocabulary for the output files\<close>


subsection \<open>Vocabulary for traces\<close>



text \<open>The failure thrown by the call that the event records, if it records one.\<close>

definition thrownBy :: "event \<Rightarrow> failure option" where
  "thrownBy ev = (case ev of Call _ r \<Rightarrow> r | Console _ \<Rightarrow> None)"

text \<open>The Auth0 error for HTTP status 429, the rate-limit failure of the Auth0 updater.\<close>

definition isTooManyRequests :: "failure \<Rightarrow> bool" where
  "isTooManyRequests error =
     (case error of ManagementApiError statusCode _ \<Rightarrow> statusCode = 429 | _ \<Rightarrow> False)"

text \<open>The event is the importer's update of the Auth0 metadata.\<close>

definition isMetadataUpdate :: "event \<Rightarrow> bool" where
  "isMetadataUpdate ev = (case ev of Call (Auth0SetPasswordImported _) _ \<Rightarrow> True | _ \<Rightarrow> False)"

text \<open>A record with the target identifier \<open>user_01\<close>, one without, and the WorkOS user.\<close>

definition exMigrated :: Auth0ExportedUser where
  "exMigrated = exExported ''auth0|1'' ''Ann@X.com'' (Some ''user_01'')"


definition exUser01 :: User where
  "exUser01 = exUser ''user_01'' ''ann@x.com''"

text \<open>A ledger line to replay, and a line of the password export.\<close>

definition exLedgerLine :: MigrationResult where
  "exLedgerLine =
     \<lparr>workos_user_id_mr = ''user_01'', auth0_user_id = ''auth0|1'', created_mr = True\<rparr>"

definition exPassword :: Auth0PasswordUser where
  "exPassword = exPasswordUser ''abc'' ''ann@x.com''"

text \<open>
  Services on which every WorkOS call succeeds and Auth0 answers every update with status
  429 and no \<^verbatim>\<open>retry-after\<close> header.
\<close>

definition exThrottledAuth0 :: "unit services" where
  "exThrottledAuth0 =
     exServices (Inr exUser01) (Inr exUser01) (Inr [exUser01]) (Inr exUser01)
       (Inl (ManagementApiError 429 None))"

text \<open>Services on which the fetch of a WorkOS user is rate limited, with a hint of 5 seconds.\<close>

definition exThrottledWorkOS :: "unit services" where
  "exThrottledWorkOS =
     exServices (Inl (RateLimitExceededException (Some 5))) (Inr exUser01) (Inr [exUser01])
       (Inr exUser01) (Inr ())"

text \<open>
  A run on a dispatcher: three submissions, a completion, a pause with a submission and a
  completion in it, and the resumption.
\<close>

definition exOps :: "nat dispatcher_op list" where
  "exOps = [Submit 1, Submit 2, Submit 3, Complete, Pause, Submit 4, Complete, Resume]"

section \<open>Properties of the resolver\<close>

subsection \<open>Helper lemmas: the lookup map, the pairing and the sort\<close>

lemma auth0UserMap_foldl:
  "foldl (\<lambda>m user. m(user_id_a0 user \<mapsto> user)) m0 xs k = Some a \<Longrightarrow>
     m0 k = Some a \<or> (a \<in> set xs \<and> user_id_a0 a = k)"
  by (induction xs arbitrary: m0) (fastforce split: if_splits)+

lemma auth0UserMap_Some:
  "auth0UserMap xs k = Some a \<Longrightarrow> a \<in> set xs \<and> user_id_a0 a = k"
  using auth0UserMap_foldl [of Map.empty xs k a] by (simp add: auth0UserMap_def)

lemma auth0UserMap_foldl_dom:
  "dom (foldl (\<lambda>m user. m(user_id_a0 user \<mapsto> user)) m0 xs) = dom m0 \<union> user_id_a0 ` set xs"
  by (induction xs arbitrary: m0) auto

lemma auth0UserMap_dom: "dom (auth0UserMap xs) = user_id_a0 ` set xs"
  by (simp add: auth0UserMap_def auth0UserMap_foldl_dom)

lemma existsInAuth0_iff:
  "existsInAuth0 (auth0UserMap xs) u \<longleftrightarrow>
     (\<exists>a\<in>set xs. auth0Sub u = Some (user_id_a0 a) \<and> user_id_a0 a \<noteq> [])"
proof -
  have "\<And>k. auth0UserMap xs k \<noteq> None \<longleftrightarrow> k \<in> user_id_a0 ` set xs"
    using auth0UserMap_dom [of xs] by (auto simp: dom_def)
  then show ?thesis
    by (auto simp: existsInAuth0_def split: option.splits)
qed

lemma existingUsers_filter:
  "existingUsers dups auth0Users =
     filter (\<lambda>u. \<exists>a\<in>set auth0Users. auth0Sub u = Some (user_id_a0 a) \<and> user_id_a0 a \<noteq> []) dups"
  unfolding existingUsers_def by (rule filter_cong) (simp_all add: existsInAuth0_iff)

lemma withAuth0Data_existing:
  "length (withAuth0Data m (filter (existsInAuth0 m) users))
     = length (filter (existsInAuth0 m) users)"
  by (induction users)
     (auto simp: withAuth0Data_def existsInAuth0_def getAuth0Data_def split: option.splits)

lemma set_withAuth0Data:
  "(u, a) \<in> set (withAuth0Data m users) \<longleftrightarrow> u \<in> set users \<and> getAuth0Data m u = Some a"
  by (induction users) (auto simp: withAuth0Data_def split: option.splits)

lemma length_insert_by: "length (insert_by cmp x xs) = Suc (length xs)"
  by (induction xs) auto

lemma length_sort_by: "length (sort_by cmp xs) = length xs"
  by (induction xs) (auto simp: length_insert_by)

lemma set_insert_by: "set (insert_by cmp x xs) = insert x (set xs)"
  by (induction xs) auto

lemma set_sort_by: "set (sort_by cmp xs) = set xs"
  by (induction xs) (auto simp: set_insert_by)

lemma length_sortedUsers:
  "length (sortedUsers getTime dups auth0Users) = length (existingUsers dups auth0Users)"
  by (simp add: sortedUsers_def length_sort_by existingUsers_def withAuth0Data_existing)

lemma set_sortedUsers:
  "(u, a) \<in> set (sortedUsers getTime dups auth0Users) \<longleftrightarrow>
     u \<in> set (existingUsers dups auth0Users) \<and> getAuth0Data (auth0UserMap auth0Users) u = Some a"
  by (simp add: sortedUsers_def set_sort_by set_withAuth0Data)

text \<open>With two or more existing users the decision is read off the head of the sorted array.\<close>

lemma processDuplicateUsers_many:
  assumes "2 \<le> length (existingUsers dups auth0Users)"
  shows "\<exists>best rest. sortedUsers getTime dups auth0Users = best # rest
           \<and> processDuplicateUsers getTime dups auth0Users =
               \<lparr>userToKeep = Some (fst best), auth0User = Some (snd best),
                action = ManualReview,
                reason = string_of_nat (length (existingUsers dups auth0Users))
                           @ '' users exist in Auth0 - manual review required'',
                requiresManualReview = Some True\<rparr>"
proof -
  from assms obtain x y zs where ex: "existingUsers dups auth0Users = x # y # zs"
    by (cases "existingUsers dups auth0Users"; cases "tl (existingUsers dups auth0Users)") auto
  have "length (sortedUsers getTime dups auth0Users) = length (existingUsers dups auth0Users)"
    by (rule length_sortedUsers)
  with assms obtain b bs where s: "sortedUsers getTime dups auth0Users = b # bs"
    by (cases "sortedUsers getTime dups auth0Users") auto
  show ?thesis
    unfolding processDuplicateUsers_def using ex s by simp
qed

subsection \<open>The decision policy\<close>

text \<open>
  Claim C7. The candidates of an email group are filtered to those whose \<open>auth0Sub\<close> is the
  \<open>user_id\<close> of an account that the directory returned. With no survivor the action is
  \<open>Skip\<close> and the reason says that all users were deleted from Auth0; with exactly one
  survivor the action is \<open>Keep\<close>, that survivor is \<open>userToKeep\<close> and \<open>auth0User\<close> is its
  directory account; with two or more the action is \<open>ManualReview\<close>,
  \<open>requiresManualReview\<close> is set, and a suggested survivor with its directory account is
  still given.
\<close>

theorem processDuplicateUsers_policy:
  "existingUsers dups auth0Users =
     filter (\<lambda>u. \<exists>a\<in>set auth0Users. auth0Sub u = Some (user_id_a0 a) \<and> user_id_a0 a \<noteq> []) dups
   \<and> (existingUsers dups auth0Users = [] \<longrightarrow>
        action (processDuplicateUsers getTime dups auth0Users) = Skip
        \<and> reason (processDuplicateUsers getTime dups auth0Users) = ''All users deleted from Auth0''
        \<and> userToKeep (processDuplicateUsers getTime dups auth0Users) = None
        \<and> auth0User (processDuplicateUsers getTime dups auth0Users) = None)
   \<and> (\<forall>u. existingUsers dups auth0Users = [u] \<longrightarrow>
        action (processDuplicateUsers getTime dups auth0Users) = Keep
        \<and> reason (processDuplicateUsers getTime dups auth0Users) = ''Single user exists in Auth0''
        \<and> userToKeep (processDuplicateUsers getTime dups auth0Users) = Some u
        \<and> (\<exists>a. auth0User (processDuplicateUsers getTime dups auth0Users) = Some a
               \<and> a \<in> set auth0Users \<and> auth0Sub u = Some (user_id_a0 a)))
   \<and> (2 \<le> length (existingUsers dups auth0Users) \<longrightarrow>
        action (processDuplicateUsers getTime dups auth0Users) = ManualReview
        \<and> requiresManualReview (processDuplicateUsers getTime dups auth0Users) = Some True
        \<and> reason (processDuplicateUsers getTime dups auth0Users) =
             string_of_nat (length (existingUsers dups auth0Users))
               @ '' users exist in Auth0 - manual review required''
        \<and> (\<exists>u a. userToKeep (processDuplicateUsers getTime dups auth0Users) = Some u
               \<and> auth0User (processDuplicateUsers getTime dups auth0Users) = Some a
               \<and> u \<in> set (existingUsers dups auth0Users)
               \<and> a \<in> set auth0Users \<and> auth0Sub u = Some (user_id_a0 a)))"
  (is "?F \<and> ?Z \<and> ?O \<and> ?M")
proof -
  let ?d = "processDuplicateUsers getTime dups auth0Users"
  let ?ex = "existingUsers dups auth0Users"
  have F: ?F by (rule existingUsers_filter)
  have Z: ?Z by (simp add: processDuplicateUsers_def)
  have O: ?O
  proof (intro allI impI)
    fix u assume one: "?ex = [u]"
    then have "u \<in> set ?ex" by simp
    then have "existsInAuth0 (auth0UserMap auth0Users) u"
      by (simp add: existingUsers_def)
    then obtain sub a where sub: "auth0Sub u = Some sub"
      and a: "auth0UserMap auth0Users sub = Some a"
      by (auto simp: existsInAuth0_def split: option.splits)
    from auth0UserMap_Some [OF a] sub a one
    show "action ?d = Keep \<and> reason ?d = ''Single user exists in Auth0''
        \<and> userToKeep ?d = Some u
        \<and> (\<exists>a. auth0User ?d = Some a \<and> a \<in> set auth0Users \<and> auth0Sub u = Some (user_id_a0 a))"
      by (simp add: processDuplicateUsers_def getAuth0Data_def)
  qed
  have M: ?M
  proof
    assume two: "2 \<le> length ?ex"
    from processDuplicateUsers_many [OF two, of getTime]
    obtain b bs where s: "sortedUsers getTime dups auth0Users = b # bs"
      and d: "?d = \<lparr>userToKeep = Some (fst b), auth0User = Some (snd b),
                action = ManualReview,
                reason = string_of_nat (length ?ex)
                           @ '' users exist in Auth0 - manual review required'',
                requiresManualReview = Some True\<rparr>"
      by blast
    from s have "(fst b, snd b) \<in> set (sortedUsers getTime dups auth0Users)" by simp
    then have mem: "fst b \<in> set ?ex"
      and g: "getAuth0Data (auth0UserMap auth0Users) (fst b) = Some (snd b)"
      by (simp_all only: set_sortedUsers)
    from g obtain sub where sub: "auth0Sub (fst b) = Some sub"
      and a: "auth0UserMap auth0Users sub = Some (snd b)"
      by (auto simp: getAuth0Data_def split: option.splits)
    show "action ?d = ManualReview \<and> requiresManualReview ?d = Some True
        \<and> reason ?d = string_of_nat (length ?ex) @ '' users exist in Auth0 - manual review required''
        \<and> (\<exists>u a. userToKeep ?d = Some u \<and> auth0User ?d = Some a \<and> u \<in> set ?ex
               \<and> a \<in> set auth0Users \<and> auth0Sub u = Some (user_id_a0 a))"
      using auth0UserMap_Some [OF a] sub mem by (simp add: d)
  qed
  from F Z O M show ?thesis by blast
qed

text \<open>
  The policy on a group of three candidates: with no account in the directory, with one
  account, and with two accounts.
\<close>

theorem processDuplicateUsers_policy_witness:
  "existingUsers exGroup [] = []
   \<and> action (processDuplicateUsers exGetTime exGroup []) = Skip
   \<and> existingUsers exGroup [exAuth0 ''auth0|2'' ''a@x.com'' (Some 5) None]
       = [exDup ''u2'' ''a@x.com'' (Some ''auth0|2'')]
   \<and> action (processDuplicateUsers exGetTime exGroup
         [exAuth0 ''auth0|2'' ''a@x.com'' (Some 5) None]) = Keep
   \<and> userToKeep (processDuplicateUsers exGetTime exGroup
         [exAuth0 ''auth0|2'' ''a@x.com'' (Some 5) None])
       = Some (exDup ''u2'' ''a@x.com'' (Some ''auth0|2''))
   \<and> 2 \<le> length (existingUsers exGroup exDirectory)
   \<and> action (processDuplicateUsers exGetTime exGroup exDirectory) = ManualReview
   \<and> requiresManualReview (processDuplicateUsers exGetTime exGroup exDirectory) = Some True"
proof -
  have h0: "existingUsers exGroup [] = []"
    by (simp add: existingUsers_def exGroup_def auth0UserMap_def existsInAuth0_def exDup_def)
  have h1: "existingUsers exGroup [exAuth0 ''auth0|2'' ''a@x.com'' (Some 5) None]
       = [exDup ''u2'' ''a@x.com'' (Some ''auth0|2'')]"
    by (simp add: existingUsers_def exGroup_def auth0UserMap_def existsInAuth0_def exDup_def
          exAuth0_def)
  have h2: "2 \<le> length (existingUsers exGroup exDirectory)"
    by (simp add: existingUsers_def exGroup_def exDirectory_def auth0UserMap_def
          existsInAuth0_def exDup_def exAuth0_def)
  from h0 processDuplicateUsers_policy [of exGroup "[]" exGetTime]
  have a0: "action (processDuplicateUsers exGetTime exGroup []) = Skip" by blast
  from h1 processDuplicateUsers_policy
            [of exGroup "[exAuth0 ''auth0|2'' ''a@x.com'' (Some 5) None]" exGetTime]
  have a1: "action (processDuplicateUsers exGetTime exGroup
         [exAuth0 ''auth0|2'' ''a@x.com'' (Some 5) None]) = Keep
     \<and> userToKeep (processDuplicateUsers exGetTime exGroup
         [exAuth0 ''auth0|2'' ''a@x.com'' (Some 5) None])
       = Some (exDup ''u2'' ''a@x.com'' (Some ''auth0|2''))" by blast
  from h2 processDuplicateUsers_policy [of exGroup exDirectory exGetTime]
  have a2: "action (processDuplicateUsers exGetTime exGroup exDirectory) = ManualReview
     \<and> requiresManualReview (processDuplicateUsers exGetTime exGroup exDirectory) = Some True"
    by blast
  from h0 h1 h2 a0 a1 a2 show ?thesis by blast
qed

subsection \<open>A failed directory query\<close>

text \<open>
  Claim C9. When the directory query for an email group throws, whatever the error,
  \<open>getAuth0UsersByEmail\<close> gives the empty list, so the group's result is the \<open>Skip\<close>
  decision with the reason that all users were deleted from Auth0 and an empty list of
  directory accounts; it goes to the file of skipped users. It is the very result that a
  query answering with no account at all produces.
\<close>

theorem processEmailGroup_query_failure:
  "getAll (emailQuery mail) = Inl error \<Longrightarrow>
     getAuth0UsersByEmail getAll mail = []
     \<and> processEmailGroup getAll getTime mail dups recordNumber =
         \<lparr>userToKeep = None, auth0User = None, action = Skip,
          reason = ''All users deleted from Auth0'', requiresManualReview = None,
          email_pr = mail, duplicates_pr = dups, auth0Users_pr = []\<rparr>
     \<and> processEmailGroup getAll getTime mail dups recordNumber =
         processEmailGroup (\<lambda>q. Inr (Some [])) getTime mail dups recordNumber
     \<and> targetFile opts (processEmailGroup getAll getTime mail dups recordNumber)
         = skippedFile opts"
  by (simp add: processEmailGroup_def getAuth0UsersByEmail_def processDuplicateUsers_def
        existingUsers_def auth0UserMap_def existsInAuth0_def targetFile_def
        split: option.splits)

theorem processEmailGroup_query_failure_witness:
  "(\<lambda>q. Inl (OtherError ''ETIMEDOUT'') :: failure + Auth0User list option)
       (emailQuery ''a@x.com'') = Inl (OtherError ''ETIMEDOUT'')
   \<and> action (processEmailGroup (\<lambda>q. Inl (OtherError ''ETIMEDOUT'')) exGetTime ''a@x.com''
               exGroup 0) = Skip
   \<and> targetFile (exOptions False)
        (processEmailGroup (\<lambda>q. Inl (OtherError ''ETIMEDOUT'')) exGetTime ''a@x.com''
               exGroup 0) = ''out/skipped_users.jsonl''"
proof -
  have h: "(\<lambda>q. Inl (OtherError ''ETIMEDOUT'') :: failure + Auth0User list option)
       (emailQuery ''a@x.com'') = Inl (OtherError ''ETIMEDOUT'')" by simp
  have s: "skippedFile (exOptions False) = ''out/skipped_users.jsonl''"
    by (simp add: exOptions_def)
  note inst = processEmailGroup_query_failure
         [of "\<lambda>q. Inl (OtherError ''ETIMEDOUT'')" "''a@x.com''" "OtherError ''ETIMEDOUT''"
             exGetTime exGroup 0 "exOptions False", OF h]
  from inst have r: "processEmailGroup (\<lambda>q. Inl (OtherError ''ETIMEDOUT'')) exGetTime ''a@x.com''
               exGroup 0 =
         \<lparr>userToKeep = None, auth0User = None, action = Skip,
          reason = ''All users deleted from Auth0'', requiresManualReview = None,
          email_pr = ''a@x.com'', duplicates_pr = exGroup, auth0Users_pr = []\<rparr>"
    by blast
  from inst have t: "targetFile (exOptions False)
        (processEmailGroup (\<lambda>q. Inl (OtherError ''ETIMEDOUT'')) exGetTime ''a@x.com''
               exGroup 0) = skippedFile (exOptions False)"
    by blast
  have a: "action (processEmailGroup (\<lambda>q. Inl (OtherError ''ETIMEDOUT'')) exGetTime ''a@x.com''
               exGroup 0) = Skip"
    by (simp add: r)
  from h a trans [OF t s] show ?thesis by blast
qed

subsection \<open>The suggested candidate\<close>




















subsection \<open>One file per decision\<close>


















section \<open>Properties of the migration worker\<close>

subsection \<open>The calls of the worker, one by one\<close>

lemma thrown_simps [simp]: "thrown (Inl e) = Some e" "thrown (Inr x) = None"
  by (simp_all add: thrown_def)

lemma updateUser_eq:
  assumes "workos_updateUser env (updateOptions u x) w = (r, w')"
  shows "updateUser env u x (w, tr) =
           ((case r of Inl e \<Rightarrow> Inl e
             | Inr _ \<Rightarrow> Inr \<lparr>workOsUser = Some x, created = False\<rparr>),
            (w', tr @ [Call (UpdateUser (updateOptions u x)) (thrown r)]))"
  by (cases r) (simp_all add: updateUser_def call_def assms)

lemma findOrCreateUser_try_id:
  assumes "workos_user_id u = Some wid" and "wid \<noteq> []"
    and "workos_getUser env wid w = (r, w1)"
  shows "findOrCreateUser_try env u (w, tr) =
           (case r of
              Inl e \<Rightarrow> Caught e (w1, tr @ [Call (GetUser wid) (Some e)])
            | Inr usr \<Rightarrow> Returned (updateUser env u usr (w1, tr @ [Call (GetUser wid) None])))"
  using assms(1,2)
  by (cases r) (simp_all add: findOrCreateUser_try_def truthy_def call_def assms(3))


lemma findOrCreateUser_catch_eq:
  assumes "\<not> isRateLimitExceededException e"
    and "workos_listUsers env (toLowerCase (email u)) w = (r, w1)"
  shows "findOrCreateUser_catch env u e (w, tr) =
           (case r of
              Inl e' \<Rightarrow> (Inl e', (w1, tr @ [Call (ListUsers (toLowerCase (email u))) (Some e')]))
            | Inr matchingUsers \<Rightarrow>
                (case matchingUsers of
                   [x] \<Rightarrow> updateUser env u x
                            (w1, tr @ [Call (ListUsers (toLowerCase (email u))) None])
                 | _ \<Rightarrow> (Inr \<lparr>workOsUser = None, created = False\<rparr>,
                         (w1, tr @ [Call (ListUsers (toLowerCase (email u))) None,
                                    Console (CantMigrateUser e)]))))"
  using assms(1)
  by (cases r)
     (simp_all add: findOrCreateUser_catch_def call_def assms(2) console_def
        split: list.splits)

lemma findOrCreateUser_catch_rate_limit:
  "isRateLimitExceededException e \<Longrightarrow> findOrCreateUser_catch env u e s = (Inl e, s)"
  by (simp add: findOrCreateUser_catch_def)

subsection \<open>What a run of the worker looks like\<close>


text \<open>Any run of \<open>findOrCreateUser\<close> ends with the rate-limit exception that a call threw.\<close>

lemma findOrCreateUser_rate_limit:
  assumes "findOrCreateUser env u (w, tr) = (res, (w', tr'))"
  shows "\<exists>evs. tr' = tr @ evs
           \<and> list_all (\<lambda>ev. \<forall>e. thrownBy ev = Some e \<longrightarrow> isRateLimitExceededException e
                                   \<longrightarrow> res = Inl e) evs"
  using assms
  by (auto simp: findOrCreateUser_def findOrCreateUser_try_def findOrCreateUser_catch_def
        updateUser_def call_def console_def thrownBy_def
      split: prod.splits sum.splits list.splits if_splits option.splits)

text \<open>What \<open>processLine\<close> adds to a run of \<open>findOrCreateUser\<close>.\<close>

lemma processLine_run:
  assumes "parse line = Some u"
    and "findOrCreateUser env u (w, tr) = (fres, (w1, tr1))"
    and "processLine env parse line n (w, tr) = (res, (w', tr'))"
  shows "(\<exists>e. fres = Inl e \<and> res = Inl e \<and> tr' = tr1)
       \<or> (\<exists>c. fres = Inr \<lparr>workOsUser = None, created = c\<rparr> \<and> res = Inr False
              \<and> tr' = tr1 @ [Console (CouldNotFindOrCreate n (user_id u))])
       \<or> (\<exists>usr c e. fres = Inr \<lparr>workOsUser = Some usr, created = c\<rparr> \<and> res = Inl e
              \<and> tr' = tr1 @ [Call (AppendResult \<lparr>workos_user_id_mr = id_User usr,
                                      auth0_user_id = user_id u, created_mr = c\<rparr>) (Some e)])
       \<or> (\<exists>usr c msg. fres = Inr \<lparr>workOsUser = Some usr, created = c\<rparr> \<and> res = Inr True
              \<and> tr' = tr1 @ [Call (AppendResult \<lparr>workos_user_id_mr = id_User usr,
                                      auth0_user_id = user_id u, created_mr = c\<rparr>) None,
                             Console msg])"
proof -
  obtain fr where "fres = Inl fr \<or> (\<exists>wo c. fres = Inr \<lparr>workOsUser = wo, created = c\<rparr>)"
    by (cases fres) (auto intro: FindResult.cases)
  then show ?thesis
    using assms
    by (auto simp: processLine_def call_def console_def
        split: prod.splits sum.splits option.splits)
qed

subsection \<open>Records that carry a target identifier\<close>




subsection \<open>The search by lowercased email\<close>

lemma findOrCreateUser_caught:
  "findOrCreateUser_try env u s = Caught e s' \<Longrightarrow>
     findOrCreateUser env u s = findOrCreateUser_catch env u e s'"
  by (simp add: findOrCreateUser_def)



subsection \<open>A failed fetch, a failed update\<close>

text \<open>
  Claim C10, as the code has it. For a record with a target identifier whose fetch fails
  with an error that is not a rate-limit exception, the worker goes on with the
  \<open>catch\<close> block, the one that a failed creation leads to: it searches by the lowercased
  email, updates the account when there is exactly one match, and otherwise returns no
  user. (Nothing is said here about an update that fails after a successful fetch.)
\<close>

theorem fetch_failure_fallback:
  assumes "workos_user_id u = Some wid" and "wid \<noteq> []"
    and "workos_getUser env wid w = (Inl e, w1)"
    and "\<not> isRateLimitExceededException e"
  shows
    "findOrCreateUser env u (w, []) =
       findOrCreateUser_catch env u e (w1, [Call (GetUser wid) (Some e)])
     \<and> (\<forall>matching w2.
          workos_listUsers env (toLowerCase (email u)) w1 = (Inr matching, w2) \<longrightarrow>
            (\<forall>x. matching = [x] \<longrightarrow>
               findOrCreateUser env u (w, []) =
                 updateUser env u x
                   (w2, [Call (GetUser wid) (Some e),
                         Call (ListUsers (toLowerCase (email u))) None]))
            \<and> (length matching \<noteq> 1 \<longrightarrow>
                 findOrCreateUser env u (w, []) =
                   (Inr \<lparr>workOsUser = None, created = False\<rparr>,
                    (w2, [Call (GetUser wid) (Some e),
                          Call (ListUsers (toLowerCase (email u))) None,
                          Console (CantMigrateUser e)]))))"
proof -
  let ?G = "Call (GetUser wid) (Some e)"
  let ?L = "Call (ListUsers (toLowerCase (email u))) None"
  have tried: "findOrCreateUser_try env u (w, []) = Caught e (w1, [?G])"
    using findOrCreateUser_try_id [OF assms(1,2,3), where tr = "[]"] by simp
  have caught: "findOrCreateUser env u (w, []) = findOrCreateUser_catch env u e (w1, [?G])"
    by (rule findOrCreateUser_caught [OF tried])
  have search: "(\<forall>x. matching = [x] \<longrightarrow>
               findOrCreateUser env u (w, []) = updateUser env u x (w2, [?G, ?L]))
            \<and> (length matching \<noteq> 1 \<longrightarrow>
                 findOrCreateUser env u (w, []) =
                   (Inr \<lparr>workOsUser = None, created = False\<rparr>,
                    (w2, [?G, ?L, Console (CantMigrateUser e)])))"
    if l: "workos_listUsers env (toLowerCase (email u)) w1 = (Inr matching, w2)"
    for matching w2
    using findOrCreateUser_catch_eq [OF assms(4) l, where tr = "[?G]"]
    by (cases matching; cases "tl matching") (auto simp: caught)
  from caught search show ?thesis by blast
qed

text \<open>
  Claim C10 as stated fails for the update: the fetch succeeds, the update throws an error
  that is not a rate-limit exception, and that error is what \<open>findOrCreateUser\<close> ends with.
  There is no search, although the search would have found one account.
\<close>

theorem fetch_failure_fallback_counterexample:
  "workos_user_id exMigrated = Some ''user_01''
   \<and> \<not> isRateLimitExceededException (OtherError ''update failed'')
   \<and> findOrCreateUser
        (exServices (Inr exUser01) (Inl (OtherError ''unused'')) (Inr [exUser01])
           (Inl (OtherError ''update failed'')) (Inr ()))
        exMigrated ((), [])
      = (Inl (OtherError ''update failed''),
         ((), [Call (GetUser ''user_01'') None,
               Call (UpdateUser (updateOptions exMigrated exUser01))
                 (Some (OtherError ''update failed''))]))"
  by (simp add: findOrCreateUser_def findOrCreateUser_try_def updateUser_def call_def
        truthy_def exServices_def exMigrated_def exExported_def
        isRateLimitExceededException_def)

text \<open>
  The amended claim at work: the fetch fails with "not found", the search finds one
  account, and the record ends as an update of that account.
\<close>

theorem fetch_failure_fallback_witness:
  "workos_user_id exMigrated = Some ''user_01''
   \<and> ''user_01'' \<noteq> []
   \<and> \<not> isRateLimitExceededException (OtherError ''not found'')
   \<and> findOrCreateUser
        (exServices (Inl (OtherError ''not found'')) (Inl (OtherError ''unused''))
           (Inr [exUser01]) (Inr exUser01) (Inr ()))
        exMigrated ((), [])
      = (Inr \<lparr>workOsUser = Some exUser01, created = False\<rparr>,
         ((), [Call (GetUser ''user_01'') (Some (OtherError ''not found'')),
               Call (ListUsers (toLowerCase (email exMigrated))) None,
               Call (UpdateUser (updateOptions exMigrated exUser01)) None]))"
proof -
  let ?env = "exServices (Inl (OtherError ''not found'')) (Inl (OtherError ''unused''))
           (Inr [exUser01]) (Inr exUser01) (Inr ())"
  have h1: "workos_user_id exMigrated = Some ''user_01''"
    by (simp add: exMigrated_def exExported_def)
  have h2: "''user_01'' \<noteq> []" by simp
  have h3: "workos_getUser ?env ''user_01'' () = (Inl (OtherError ''not found''), ())"
    by (simp add: exServices_def)
  have h4: "\<not> isRateLimitExceededException (OtherError ''not found'')"
    by (simp add: isRateLimitExceededException_def)
  have l: "workos_listUsers ?env (toLowerCase (email exMigrated)) () = (Inr [exUser01], ())"
    by (simp add: exServices_def)
  have up: "workos_updateUser ?env (updateOptions exMigrated exUser01) () = (Inr exUser01, ())"
    by (simp add: exServices_def)
  from fetch_failure_fallback [OF h1 h2 h3 h4] l
  have "findOrCreateUser ?env exMigrated ((), []) =
          updateUser ?env exMigrated exUser01
            ((), [Call (GetUser ''user_01'') (Some (OtherError ''not found'')),
                  Call (ListUsers (toLowerCase (email exMigrated))) None])"
    by blast
  with updateUser_eq [OF up, where tr = "[Call (GetUser ''user_01'') (Some (OtherError ''not found'')),
                  Call (ListUsers (toLowerCase (email exMigrated))) None]"]
  have "findOrCreateUser ?env exMigrated ((), [])
      = (Inr \<lparr>workOsUser = Some exUser01, created = False\<rparr>,
         ((), [Call (GetUser ''user_01'') (Some (OtherError ''not found'')),
               Call (ListUsers (toLowerCase (email exMigrated))) None,
               Call (UpdateUser (updateOptions exMigrated exUser01)) None]))"
    by simp
  with h1 h2 h4 show ?thesis by blast
qed

subsection \<open>Rate-limit failures\<close>

lemma processLine_rate_limit:
  assumes "processLine env parse line n (w, []) = (res, (w', tr'))"
  shows "list_all (\<lambda>ev. \<forall>e. thrownBy ev = Some e \<longrightarrow> isRateLimitExceededException e
                           \<longrightarrow> res = Inl e) tr'"
proof (cases "parse line")
  case None
  with assms show ?thesis
    by (auto simp: processLine_def console_def thrownBy_def)
next
  case (Some u)
  obtain fres w1 tr1 where f: "findOrCreateUser env u (w, []) = (fres, (w1, tr1))"
    by (metis surj_pair)
  from findOrCreateUser_rate_limit [OF f]
  have run: "list_all (\<lambda>ev. \<forall>e. thrownBy ev = Some e \<longrightarrow> isRateLimitExceededException e
                           \<longrightarrow> fres = Inl e) tr1"
    by simp
  have th: "thrownBy (Console msg) = None" "thrownBy (Call c r) = r" for msg c r
    by (simp_all add: thrownBy_def)
  note shape = processLine_run [where parse = parse and line = line and env = env and n = n,
      OF Some f assms]
  from shape show ?thesis
  proof (elim disjE exE conjE)
    fix e assume "fres = Inl e" "res = Inl e" "tr' = tr1"
    with run show ?thesis by simp
  next
    fix c assume a: "fres = Inr \<lparr>workOsUser = None, created = c\<rparr>" "res = Inr False"
      "tr' = tr1 @ [Console (CouldNotFindOrCreate n (user_id u))]"
    from run a(1) have "list_all (\<lambda>ev. \<forall>e. thrownBy ev = Some e \<longrightarrow>
        isRateLimitExceededException e \<longrightarrow> res = Inl e) tr1"
      by (auto simp: list_all_iff)
    with a(3) th show ?thesis by simp
  next
    fix usr c e assume a: "fres = Inr \<lparr>workOsUser = Some usr, created = c\<rparr>" "res = Inl e"
      "tr' = tr1 @ [Call (AppendResult \<lparr>workos_user_id_mr = id_User usr,
                        auth0_user_id = user_id u, created_mr = c\<rparr>) (Some e)]"
    from run a(1) have "list_all (\<lambda>ev. \<forall>e. thrownBy ev = Some e \<longrightarrow>
        isRateLimitExceededException e \<longrightarrow> res = Inl e) tr1"
      by (auto simp: list_all_iff)
    with a(2,3) th show ?thesis by simp
  next
    fix usr c msg assume a: "fres = Inr \<lparr>workOsUser = Some usr, created = c\<rparr>"
      "res = Inr True"
      "tr' = tr1 @ [Call (AppendResult \<lparr>workos_user_id_mr = id_User usr,
                        auth0_user_id = user_id u, created_mr = c\<rparr>) None, Console msg]"
    from run a(1) have "list_all (\<lambda>ev. \<forall>e. thrownBy ev = Some e \<longrightarrow>
        isRateLimitExceededException e \<longrightarrow> res = Inl e) tr1"
      by (auto simp: list_all_iff)
    with a(3) th show ?thesis by simp
  qed
qed

lemma enqueueTask_backoff:
  "processLine env parse line n s = (Inl (RateLimitExceededException ra), s') \<Longrightarrow>
     fst (enqueueTask env parse line n (s, k)) = Backoff (retryAfter ra)"
  by (simp add: enqueueTask_def)

lemma processLine_auth0_rate_limit:
  assumes "processLine_auth0 env mr n (w, []) = (res, (w', tr'))"
  shows "list_all (\<lambda>ev. \<forall>e. thrownBy ev = Some e \<longrightarrow> isTooManyRequests e \<longrightarrow> res = Inl e) tr'"
  using assms
  by (auto simp: processLine_auth0_def call_def console_def thrownBy_def isTooManyRequests_def
      split: prod.splits sum.splits failure.splits if_splits)

lemma updateUserPassword_rate_limit:
  assumes "updateUserPassword env pu (w, tr) = (res, (w', tr'))"
  shows "\<exists>evs. tr' = tr @ evs
          \<and> list_all (\<lambda>ev. \<not> isMetadataUpdate ev \<longrightarrow>
                (\<forall>e. thrownBy ev = Some e \<longrightarrow> isRateLimitExceededException e
                   \<longrightarrow> res = Inl e)) evs"
  using assms
  by (auto simp: updateUserPassword_def updateUserPassword_catch_def call_def console_def
        thrownBy_def isMetadataUpdate_def
      split: prod.splits sum.splits list.splits if_splits)

lemma processLine_pw_rate_limit:
  assumes "processLine_pw env parse line n (w, []) = (res, (w', tr'))"
  shows "list_all (\<lambda>ev. \<not> isMetadataUpdate ev \<longrightarrow>
            (\<forall>e. thrownBy ev = Some e \<longrightarrow> isRateLimitExceededException e \<longrightarrow> res = Inl e)) tr'"
proof (cases "parse line")
  case None
  with assms show ?thesis by (auto simp: processLine_pw_def)
next
  case (Some pu)
  obtain ures w1 tr1 where f: "updateUserPassword env pu (w, []) = (ures, (w1, tr1))"
    by (metis surj_pair)
  from updateUserPassword_rate_limit [OF f]
  have run: "list_all (\<lambda>ev. \<not> isMetadataUpdate ev \<longrightarrow>
            (\<forall>e. thrownBy ev = Some e \<longrightarrow> isRateLimitExceededException e \<longrightarrow> ures = Inl e)) tr1"
    by simp
  have th: "thrownBy (Console msg) = None" for msg
    by (simp add: thrownBy_def)
  from assms Some f
  consider e where "ures = Inl e" "res = Inl e" "tr' = tr1"
    | b msg where "ures = Inr b" "tr' = tr1 @ [Console msg]"
    by (auto simp: processLine_pw_def console_def split: sum.splits option.splits)
  then show ?thesis
  proof cases
    case 1
    with run show ?thesis by simp
  next
    case 2
    from run 2(1) have "list_all (\<lambda>ev. \<not> isMetadataUpdate ev \<longrightarrow>
            (\<forall>e. thrownBy ev = Some e \<longrightarrow> isRateLimitExceededException e \<longrightarrow> res = Inl e)) tr1"
      by (auto simp: list_all_iff)
    with 2(2) th show ?thesis by simp
  qed
qed

text \<open>
  Claim C6, as the code has it. In the migration worker every rate-limit exception that a
  call throws is the failure the worker ends with, unchanged, and the queued task hands
  it to the backoff handler; hence a worker that returns has absorbed no rate-limit
  exception. The same holds in the Auth0 updater for the Auth0 error with status 429, and
  in the password importer for the rate-limit exceptions of all calls but one: what the
  update of the Auth0 metadata throws is logged and absorbed, whatever it is.
\<close>

theorem rate_limit_propagates:
  "(processLine env parse line n (w, []) = (res, (w', tr')) \<longrightarrow>
      list_all (\<lambda>ev. \<forall>e. thrownBy ev = Some e \<longrightarrow> isRateLimitExceededException e
                         \<longrightarrow> res = Inl e) tr'
      \<and> (\<forall>ra. res = Inl (RateLimitExceededException ra) \<longrightarrow>
            fst (enqueueTask env parse line n ((w, []), k)) = Backoff (retryAfter ra)))
   \<and> (processLine_auth0 env mr n (w, []) = (res, (w', tr')) \<longrightarrow>
      list_all (\<lambda>ev. \<forall>e. thrownBy ev = Some e \<longrightarrow> isTooManyRequests e \<longrightarrow> res = Inl e) tr')
   \<and> (processLine_pw env parse_pw line_pw n (w, []) = (res, (w', tr')) \<longrightarrow>
      list_all (\<lambda>ev. \<not> isMetadataUpdate ev \<longrightarrow>
            (\<forall>e. thrownBy ev = Some e \<longrightarrow> isRateLimitExceededException e \<longrightarrow> res = Inl e)) tr')"
proof (intro conjI impI allI)
  assume p: "processLine env parse line n (w, []) = (res, (w', tr'))"
  show "list_all (\<lambda>ev. \<forall>e. thrownBy ev = Some e \<longrightarrow> isRateLimitExceededException e
                         \<longrightarrow> res = Inl e) tr'"
    by (rule processLine_rate_limit [where parse = parse and line = line, OF p])
  fix ra assume "res = Inl (RateLimitExceededException ra)"
  with p show "fst (enqueueTask env parse line n ((w, []), k)) = Backoff (retryAfter ra)"
    by (simp add: enqueueTask_def)
next
  assume "processLine_auth0 env mr n (w, []) = (res, (w', tr'))"
  then show "list_all (\<lambda>ev. \<forall>e. thrownBy ev = Some e \<longrightarrow> isTooManyRequests e
                         \<longrightarrow> res = Inl e) tr'"
    by (rule processLine_auth0_rate_limit)
next
  assume p: "processLine_pw env parse_pw line_pw n (w, []) = (res, (w', tr'))"
  show "list_all (\<lambda>ev. \<not> isMetadataUpdate ev \<longrightarrow>
            (\<forall>e. thrownBy ev = Some e \<longrightarrow> isRateLimitExceededException e \<longrightarrow> res = Inl e)) tr'"
    by (rule processLine_pw_rate_limit [where parse = parse_pw and line = line_pw, OF p])
qed

text \<open>
  Claim C6 as stated fails in the password importer: Auth0 answers the update of the
  metadata with status 429, the importer logs it, returns the user and reports success.
\<close>

theorem rate_limit_propagates_counterexample:
  "isTooManyRequests (ManagementApiError 429 None)
   \<and> updateUserPassword exThrottledAuth0 exPassword ((), [])
       = (Inr (Some exUser01),
          ((), [Call (ListUsers (toLowerCase (email_pw exPassword))) None,
                Call (UpdateUserPassword (id_User exUser01) (passwordHash exPassword)) None,
                Call (Auth0SetPasswordImported (''auth0|'' @ id_pw exPassword))
                  (Some (ManagementApiError 429 None)),
                Console (CantUpdateMetadata (''auth0|'' @ id_pw exPassword)
                           (email_pw exPassword))]))
   \<and> fst (processLine_pw exThrottledAuth0 Some exPassword 0 ((), [])) = Inr True"
proof -
  have u: "updateUserPassword exThrottledAuth0 exPassword ((), [])
       = (Inr (Some exUser01),
          ((), [Call (ListUsers (toLowerCase (email_pw exPassword))) None,
                Call (UpdateUserPassword (id_User exUser01) (passwordHash exPassword)) None,
                Call (Auth0SetPasswordImported (''auth0|'' @ id_pw exPassword))
                  (Some (ManagementApiError 429 None)),
                Console (CantUpdateMetadata (''auth0|'' @ id_pw exPassword)
                           (email_pw exPassword))]))"
    by (simp add: updateUserPassword_def call_def console_def exThrottledAuth0_def
          exServices_def)
  have p: "fst (processLine_pw exThrottledAuth0 Some exPassword 0 ((), [])) = Inr True"
    by (simp add: processLine_pw_def u)
  have t: "isTooManyRequests (ManagementApiError 429 None)"
    by (simp add: isTooManyRequests_def)
  from t u p show ?thesis by blast
qed

text \<open>
  The amended claim at work: the fetch is rate limited, the worker ends with that
  exception, and the task asks for a pause of \<open>5 + 1\<close> seconds.
\<close>

theorem rate_limit_propagates_witness:
  "processLine exThrottledWorkOS Some exMigrated 0 ((), [])
     = (Inl (RateLimitExceededException (Some 5)),
        ((), [Call (GetUser ''user_01'') (Some (RateLimitExceededException (Some 5)))]))
   \<and> fst (enqueueTask exThrottledWorkOS Some exMigrated 0 (((), []), 0)) = Backoff 6"
proof -
  have p: "processLine exThrottledWorkOS Some exMigrated 0 ((), [])
     = (Inl (RateLimitExceededException (Some 5)),
        ((), [Call (GetUser ''user_01'') (Some (RateLimitExceededException (Some 5)))]))"
    by (simp add: processLine_def findOrCreateUser_def findOrCreateUser_try_def
          findOrCreateUser_catch_def call_def truthy_def exThrottledWorkOS_def exServices_def
          exMigrated_def exExported_def isRateLimitExceededException_def)
  have "processLine exThrottledWorkOS Some exMigrated 0 ((), [])
          = (Inl (RateLimitExceededException (Some 5)),
             ((), [Call (GetUser ''user_01'') (Some (RateLimitExceededException (Some 5)))]))
        \<longrightarrow>
          list_all (\<lambda>ev. \<forall>e. thrownBy ev = Some e \<longrightarrow> isRateLimitExceededException e
                         \<longrightarrow> Inl (RateLimitExceededException (Some 5)) = (Inl e :: failure + bool))
            [Call (GetUser ''user_01'') (Some (RateLimitExceededException (Some 5)))]
          \<and> (\<forall>ra. (Inl (RateLimitExceededException (Some 5)) :: failure + bool)
                     = Inl (RateLimitExceededException ra) \<longrightarrow>
                fst (enqueueTask exThrottledWorkOS Some exMigrated 0 (((), []), 0))
                  = Backoff (retryAfter ra))"
    by (rule conjunct1 [OF rate_limit_propagates
         [where parse = Some and line = exMigrated and env = exThrottledWorkOS and n = 0
            and w = "()" and k = 0
            and res = "Inl (RateLimitExceededException (Some 5))" and w' = "()"
            and tr' = "[Call (GetUser ''user_01'')
                          (Some (RateLimitExceededException (Some 5)))]"]])
  with p have "\<forall>ra. (Inl (RateLimitExceededException (Some 5)) :: failure + bool)
                     = Inl (RateLimitExceededException ra) \<longrightarrow>
                fst (enqueueTask exThrottledWorkOS Some exMigrated 0 (((), []), 0))
                  = Backoff (retryAfter ra)"
    by blast
  then have "fst (enqueueTask exThrottledWorkOS Some exMigrated 0 (((), []), 0))
          = Backoff (retryAfter (Some 5))"
    by blast
  then have "fst (enqueueTask exThrottledWorkOS Some exMigrated 0 (((), []), 0)) = Backoff 6"
    by (simp add: retryAfter_def nullish_def)
  with p show ?thesis by blast
qed

section \<open>The pause after a rate-limit failure\<close>

text \<open>
  Claim C1. The migration worker and the password importer pause for the hint of the
  exception plus one second, and for their default plus one when there is no hint. The
  Auth0 updater does not: it applies \<^verbatim>\<open>Number\<close> to the header before \<^verbatim>\<open>??\<close>, and
  \<^verbatim>\<open>Number(null)\<close> is \<open>0\<close>, so without a \<^verbatim>\<open>retry-after\<close> header the default of 10 is never
  used and the pause is one second instead of eleven.
\<close>

theorem retry_after_without_hint:
  "retryAfter None = DEFAULT_RETRY_AFTER + 1
   \<and> retryAfter (Some s) = s + 1
   \<and> retryAfter_pw None = DEFAULT_RETRY_AFTER_pw + 1
   \<and> retryAfter_pw (Some s) = s + 1
   \<and> retryAfter_auth0 numberOfString (Some str) = plus_number (numberOfString str) 1
   \<and> retryAfter_auth0 numberOfString None = Num 1
   \<and> Num 1 \<noteq> Num (DEFAULT_RETRY_AFTER_auth0 + 1)
   \<and> fst (enqueueTask_auth0 exThrottledAuth0 numberOfString exLedgerLine 0 (((), []), 0))
       = Backoff (Num 1)"
  by (simp add: retryAfter_def retryAfter_pw_def retryAfter_auth0_def nullish_def Number_def
        plus_number_def DEFAULT_RETRY_AFTER_auth0_def enqueueTask_auth0_def
        processLine_auth0_def call_def exThrottledAuth0_def exServices_def)

section \<open>Properties of the dispatcher\<close>

lemma startQueued_le: "active \<le> N \<Longrightarrow> fst (startQueued N active ts) \<le> N"
  by (induction ts arbitrary: active) auto

lemma dispatch_bounded:
  "activeCount d \<le> capacity d \<Longrightarrow>
     activeCount (dispatch d) \<le> capacity d \<and> capacity (dispatch d) = capacity d"
  using startQueued_le [of "activeCount d" "capacity d" "queued d"]
  by (auto simp: dispatch_def split: prod.splits)

lemma step_bounded:
  "activeCount d \<le> capacity d \<Longrightarrow>
     activeCount (step d e) \<le> capacity d \<and> capacity (step d e) = capacity d"
proof (cases e)
  case (Submit t)
  assume "activeCount d \<le> capacity d"
  then show ?thesis
    using dispatch_bounded [of "d\<lparr>queued := queued d @ [t]\<rparr>"] Submit by simp
next
  case Complete
  assume "activeCount d \<le> capacity d"
  then show ?thesis
    using dispatch_bounded [of "d\<lparr>activeCount := activeCount d - 1\<rparr>"] Complete by simp
next
  case Pause
  assume "activeCount d \<le> capacity d"
  then show ?thesis using Pause by simp
next
  case Resume
  assume "activeCount d \<le> capacity d"
  then show ?thesis
    using dispatch_bounded [of "d\<lparr>paused := False\<rparr>"] Resume by simp
qed

lemma states_bounded:
  "activeCount d \<le> capacity d \<Longrightarrow> d' \<in> set (states d ops) \<Longrightarrow>
     activeCount d' \<le> capacity d \<and> capacity d' = capacity d"
proof (induction ops arbitrary: d)
  case Nil
  then show ?case by simp
next
  case (Cons e ops)
  from Cons.prems(2) consider "d' = d" | "d' \<in> set (states (step d e) ops)" by auto
  then show ?case
  proof cases
    case 1
    with Cons.prems(1) show ?thesis by simp
  next
    case 2
    from step_bounded [OF Cons.prems(1), of e]
    have s: "activeCount (step d e) \<le> capacity (step d e)" "capacity (step d e) = capacity d"
      by simp_all
    from Cons.IH [OF s(1) 2] s(2) show ?thesis by simp
  qed
qed

text \<open>
  Claim C8. A dispatcher made with capacity \<open>N\<close> and taken through any finite sequence of
  submissions, completions, pauses and resumptions (any number of records, any
  interleaving) never has more than \<open>N\<close> tasks in flight, in any of the states it goes
  through.
\<close>

theorem active_count_bounded:
  "d \<in> set (states (newDispatcher N) ops) \<Longrightarrow> activeCount d \<le> N \<and> capacity d = N"
  using states_bounded [of "newDispatcher N" d ops] by (simp add: newDispatcher_def)

text \<open>The example run with capacity 2: the count goes up to 2 and never beyond.\<close>

theorem active_count_bounded_witness:
  "map activeCount (states (newDispatcher 2) exOps) = [0, 1, 2, 2, 2, 2, 2, 1, 2]
   \<and> states (newDispatcher 2) exOps ! 8 \<in> set (states (newDispatcher 2) exOps)
   \<and> activeCount (states (newDispatcher 2) exOps ! 8) \<le> 2"
proof -
  have m: "map activeCount (states (newDispatcher 2) exOps) = [0, 1, 2, 2, 2, 2, 2, 1, 2]"
    by (simp add: exOps_def newDispatcher_def dispatch_def)
  then have "length (map activeCount (states (newDispatcher 2) exOps)) = 9"
    by simp
  then have "length (states (newDispatcher 2) exOps) = 9"
    by (simp only: length_map)
  then have mem: "states (newDispatcher 2) exOps ! 8 \<in> set (states (newDispatcher 2) exOps)"
    by simp
  from active_count_bounded [OF mem] m mem show ?thesis by blast
qed

end
